theory Spec2Isabelle
  imports Complex_Main "HOL-Library.Multiset"
begin

section \<open>Data model\<close>

text \<open>
  The scripts work on GeoPandas frames of Shapely geometries. Coordinates are Python
  floats; they are idealised here as real numbers, so that no rounding, infinity or NaN
  occurs. A coordinate pair is \<open>(x, y)\<close> with \<open>y\<close> the latitude, as \<open>point.y\<close> is used in
  \<open>find_nearest_river\<close>.
\<close>

type_synonym coord = "real \<times> real"

text \<open>
  The matching code tells three kinds of geometry apart by \<open>isinstance\<close>: a \<open>Point\<close>, a
  \<open>MultiPolygon\<close>, and everything else (line strings, polygons, a missing geometry).
  The payload \<open>'g\<close> of the last two is left to the geometry library.
\<close>

datatype 'g geometry = Point coord | MultiPolygon 'g | OtherGeometry 'g

text \<open>
  A value as Python passes it dynamically: \<open>argparse\<close> without \<open>type=\<close> yields a
  string, the documented radius is a float.
\<close>

datatype pyval = PyFloat real | PyStr string

datatype error = TypeError | ValueError | KeyError | ExternalError string

record 'g feature =
  geometry :: "'g geometry"
  properties :: string

text \<open>
  A frame as \<open>gpd.read_file\<close> returns it: its rows carry the labels \<open>0, 1, ...\<close> in
  order, so a row's position in the list is its label.
\<close>

record 'g GeoDataFrame =
  rows :: "'g feature list"
  crs :: string

text \<open>
  The operations of Shapely, pyproj and GeoPandas that the scripts call, as parameters:
  \<^item> \<open>centroid g\<close> is \<open>geom.centroid\<close> of a MultiPolygon;
  \<^item> \<open>intersects_buffer geom p r\<close> is \<open>geom.intersects(p.buffer(r))\<close>;
  \<^item> \<open>nearest_distance p geom\<close> is \<open>p.distance(nearest_points(p, geom)[1])\<close>;
  \<^item> \<open>transformer src dst\<close> builds the coordinate transformation between two reference
    systems, or raises;
  \<^item> \<open>transform f g\<close> applies a coordinate transformation to a non-point geometry;
  \<^item> \<open>intersects_union geom gs\<close> is \<open>geom.intersects(u)\<close> for the \<open>unary_union\<close> \<open>u\<close>
    of the geometries \<open>gs\<close>.
\<close>

record 'g geolib =
  centroid :: "'g \<Rightarrow> coord"
  intersects_buffer :: "'g geometry \<Rightarrow> coord \<Rightarrow> real \<Rightarrow> bool"
  nearest_distance :: "coord \<Rightarrow> 'g geometry \<Rightarrow> real"
  transformer :: "string \<Rightarrow> string \<Rightarrow> error + (coord \<Rightarrow> coord)"
  transform :: "(coord \<Rightarrow> coord) \<Rightarrow> 'g \<Rightarrow> 'g"
  intersects_union :: "'g geometry \<Rightarrow> 'g geometry list \<Rightarrow> bool"

section \<open>Radius conversion\<close>

definition radians :: "real \<Rightarrow> real" where
  "radians d = d * pi / 180"

text \<open>
  \<open>meters_to_degrees\<close>, lines 51 to 64. \<open>meters / 111000\<close> raises \<open>TypeError\<close> on a
  string. The float cosine of \<open>radians(latitude)\<close> is never zero, not even at 90
  degrees, where the code divides by a tiny number and returns a huge \<open>degrees_lon\<close>.
  The real cosine is zero there, and the reals have no counterpart of that value: the
  model leaves \<open>degrees_lon\<close> unspecified at such a latitude, so that nothing is proved
  about it.
\<close>

definition meters_to_degrees :: "pyval \<Rightarrow> real \<Rightarrow> error + (real \<times> real)" where
  "meters_to_degrees meters latitude =
     (case meters of
        PyStr s \<Rightarrow> Inl TypeError
      | PyFloat m \<Rightarrow>
          (let degrees_lat = m / 111000;
               degrees_lon = (if cos (radians latitude) = 0 then undefined
                              else m / (111000 * cos (radians latitude)))
           in Inr (degrees_lat, degrees_lon)))"

section \<open>Nearest river\<close>

text \<open>
  \<open>Series.idxmin\<close> of pandas: the label of the first occurrence of the minimum;
  \<open>ValueError\<close> on an empty series.
\<close>

fun first_min :: "real list \<Rightarrow> nat" where
  "first_min [] = 0"
| "first_min [d] = 0"
| "first_min (d # ds) = (let k = first_min ds in if d \<le> ds ! k then 0 else Suc k)"

definition idxmin :: "real list \<Rightarrow> error + nat" where
  "idxmin ds = (if ds = [] then Inl ValueError else Inr (first_min ds))"

text \<open>\<open>frame.loc[label]\<close>: the row with that label, \<open>KeyError\<close> when there is none.\<close>

definition loc :: "'a list \<Rightarrow> nat \<Rightarrow> error + 'a" where
  "loc xs i = (if i < length xs then Inr (xs ! i) else Inl KeyError)"

text \<open>
  \<open>find_nearest_river\<close>, lines 66 to 100. The diagnostic \<open>print\<close> calls under
  \<open>if verbose\<close> change no result and are left out.
\<close>

definition find_nearest_river ::
  "'g geolib \<Rightarrow> coord \<Rightarrow> 'g GeoDataFrame \<Rightarrow> pyval \<Rightarrow> error + 'g feature option" where
  "find_nearest_river lib point rivers radius_meters =
     (let latitude = snd point in
      case meters_to_degrees radius_meters latitude of
        Inl e \<Rightarrow> Inl e
      | Inr (degrees_lat, degrees_lon) \<Rightarrow>
          (let rivers_in_buffer =
                 filter (\<lambda>r. intersects_buffer lib (geometry r) point (max degrees_lat degrees_lon))
                   (rows rivers)
           in if rivers_in_buffer \<noteq> [] then
                (let distances = map (\<lambda>r. nearest_distance lib point (geometry r)) rivers_in_buffer
                 in case idxmin distances of
                      Inl e \<Rightarrow> Inl e
                    | Inr label \<Rightarrow>
                        (case loc rivers_in_buffer label of
                           Inl e \<Rightarrow> Inl e
                         | Inr nearest_river \<Rightarrow> Inr (Some nearest_river)))
              else Inr None))"

section \<open>Paths and files\<close>

text \<open>
  The functions of \<open>os.path\<close> (POSIX flavour) that \<open>process_layers\<close>,
  \<open>save_layer_as_geojson\<close> and \<open>list_files\<close> call. \<open>rfind p c\<close> is \<open>p.rfind(c)\<close>:
  the last position of the character, \<open>-1\<close> when it does not occur.
\<close>

definition rfind :: "string \<Rightarrow> char \<Rightarrow> int" where
  "rfind p c =
     (if c \<in> set p then int (length p) - 1 - int (length (takeWhile (\<lambda>x. x \<noteq> c) (rev p)))
      else - 1)"

definition basename :: "string \<Rightarrow> string" where
  "basename p = drop (nat (rfind p (CHR ''/'') + 1)) p"

text \<open>
  \<open>splitext\<close>: the extension starts at the last dot of the file name, unless only dots
  precede it there.
\<close>

definition splitext :: "string \<Rightarrow> string \<times> string" where
  "splitext p =
     (let sepIndex = rfind p (CHR ''/'');
          dotIndex = rfind p (CHR ''.'');
          filenameIndex = sepIndex + 1
      in if dotIndex > sepIndex \<and>
            list_ex (\<lambda>c. c \<noteq> CHR ''.'')
              (take (nat (dotIndex - filenameIndex)) (drop (nat filenameIndex) p))
         then (take (nat dotIndex) p, drop (nat dotIndex) p)
         else (p, []))"

definition path_join :: "string \<Rightarrow> string \<Rightarrow> string" where
  "path_join a b =
     (if b \<noteq> [] \<and> hd b = CHR ''/'' then b
      else if a = [] \<or> last a = CHR ''/'' then a @ b
      else a @ ''/'' @ b)"

definition endswith :: "string \<Rightarrow> string \<Rightarrow> bool" where
  "endswith s suffix =
     (length suffix \<le> length s \<and> drop (length s - length suffix) s = suffix)"

text \<open>\<open>str.lower\<close> on the ASCII letters; other characters are kept.\<close>

definition lower_char :: "char \<Rightarrow> char" where
  "lower_char c =
     (let n = (of_char c :: nat) in if 65 \<le> n \<and> n \<le> 90 then char_of (n + 32) else c)"

definition lower :: "string \<Rightarrow> string" where
  "lower s = map lower_char s"

text \<open>
  What the scripts reach outside the process, as parameters:
  \<^item> \<open>walk d\<close> is \<open>os.walk(d)\<close>, the triples \<open>(root, dirs, files)\<close> in order;
  \<^item> \<open>read_file p\<close> is \<open>gpd.read_file(p)\<close>, a frame or the exception raised;
  \<^item> \<open>to_file p gdf\<close> is \<open>gdf.to_file(p, driver='GeoJSON')\<close>: the exception raised, if any;
  \<^item> \<open>makedirs p\<close> is \<open>os.makedirs(p, exist_ok=True)\<close>: the exception raised, if any.
\<close>

record 'g filesystem =
  walk :: "string \<Rightarrow> (string \<times> string list \<times> string list) list"
  read_file :: "string \<Rightarrow> error + 'g GeoDataFrame"
  to_file :: "string \<Rightarrow> 'g GeoDataFrame \<Rightarrow> error option"
  makedirs :: "string \<Rightarrow> error option"

text \<open>\<open>list_files\<close> of \<open>spatial_layer_processor.py\<close>, lines 18 to 34.\<close>

definition list_files :: "'g filesystem \<Rightarrow> string \<Rightarrow> string list" where
  "list_files fs directory =
     concat (map (\<lambda>(root, dirs, files).
                    map (path_join root) (filter (\<lambda>file. endswith (lower file) ''.geojson'') files))
               (walk fs directory))"

text \<open>
  \<open>save_layer_as_geojson\<close>, lines 36 to 49. The result is the file handed to the
  writer: its path and the frame.
\<close>

definition save_layer_as_geojson ::
  "'g filesystem \<Rightarrow> 'g GeoDataFrame \<Rightarrow> string \<Rightarrow> string \<Rightarrow> error + (string \<times> 'g GeoDataFrame)" where
  "save_layer_as_geojson fs gdf output_path name =
     (let output_file = path_join output_path (name @ ''.geojson'')
      in case to_file fs output_file gdf of
           Some e \<Rightarrow> Inl e
         | None \<Rightarrow> Inr (output_file, gdf))"

section \<open>One pair of layers\<close>

text \<open>
  \<open>GeoDataFrame.to_crs\<close>: every geometry of the frame goes through the coordinate
  transformation from the frame's reference system to the target, and keeps its kind.
\<close>

fun transform_geometry :: "'g geolib \<Rightarrow> (coord \<Rightarrow> coord) \<Rightarrow> 'g geometry \<Rightarrow> 'g geometry" where
  "transform_geometry lib f (Point p) = Point (f p)"
| "transform_geometry lib f (MultiPolygon g) = MultiPolygon (transform lib f g)"
| "transform_geometry lib f (OtherGeometry g) = OtherGeometry (transform lib f g)"

definition to_crs :: "'g geolib \<Rightarrow> 'g GeoDataFrame \<Rightarrow> string \<Rightarrow> error + 'g GeoDataFrame" where
  "to_crs lib gdf target =
     (case transformer lib (crs gdf) target of
        Inl e \<Rightarrow> Inl e
      | Inr f \<Rightarrow>
          Inr \<lparr>rows = map (\<lambda>r. r\<lparr>geometry := transform_geometry lib f (geometry r)\<rparr>) (rows gdf),
               crs = target\<rparr>)"

text \<open>Lines 120 to 122 of \<open>create_new_layer\<close>: the point layer in the rivers' system.\<close>

definition ensure_same_crs ::
  "'g geolib \<Rightarrow> 'g GeoDataFrame \<Rightarrow> 'g GeoDataFrame \<Rightarrow> error + 'g GeoDataFrame" where
  "ensure_same_crs lib river_gdf point_gdf =
     (if crs river_gdf \<noteq> crs point_gdf then to_crs lib point_gdf (crs river_gdf)
      else Inr point_gdf)"

text \<open>Lines 132 and 133: the geometry column with every MultiPolygon turned into its centroid.\<close>

definition centroid_if_multipolygon :: "'g geolib \<Rightarrow> 'g geometry \<Rightarrow> 'g geometry" where
  "centroid_if_multipolygon lib geom =
     (case geom of MultiPolygon g \<Rightarrow> Point (centroid lib g) | _ \<Rightarrow> geom)"

definition multipolygons_to_centroids :: "'g geolib \<Rightarrow> 'g GeoDataFrame \<Rightarrow> 'g GeoDataFrame" where
  "multipolygons_to_centroids lib point_gdf =
     point_gdf\<lparr>rows := map (\<lambda>r. r\<lparr>geometry := centroid_if_multipolygon lib (geometry r)\<rparr>)
                          (rows point_gdf)\<rparr>"

text \<open>
  Lines 135 to 143: the loop over the point geometries, with \<open>selected_rivers\<close> as its
  state. An exception of \<open>find_nearest_river\<close> ends the loop.
\<close>

fun select_rivers ::
  "'g geolib \<Rightarrow> 'g GeoDataFrame \<Rightarrow> pyval \<Rightarrow> 'g feature list \<Rightarrow> 'g geometry list
     \<Rightarrow> error + 'g feature list" where
  "select_rivers lib river_gdf radius selected_rivers [] = Inr selected_rivers"
| "select_rivers lib river_gdf radius selected_rivers (Point p # points) =
     (case find_nearest_river lib p river_gdf radius of
        Inl e \<Rightarrow> Inl e
      | Inr None \<Rightarrow> select_rivers lib river_gdf radius selected_rivers points
      | Inr (Some nearest_river) \<Rightarrow>
          select_rivers lib river_gdf radius (selected_rivers @ [nearest_river]) points)"
| "select_rivers lib river_gdf radius selected_rivers (MultiPolygon g # points) =
     select_rivers lib river_gdf radius selected_rivers points"
| "select_rivers lib river_gdf radius selected_rivers (OtherGeometry g # points) =
     select_rivers lib river_gdf radius selected_rivers points"

text \<open>
  \<open>create_new_layer\<close>, lines 102 to 157. The result is the exception raised, or the file
  written, or \<open>None\<close> when the function returns without writing.
\<close>

definition create_new_layer ::
  "'g filesystem \<Rightarrow> 'g geolib \<Rightarrow> string \<Rightarrow> string \<Rightarrow> string \<Rightarrow> string \<Rightarrow> pyval
     \<Rightarrow> error + (string \<times> 'g GeoDataFrame) option" where
  "create_new_layer fs lib river_path point_path new_layer_name save_path radius =
     (case read_file fs river_path of
        Inl e \<Rightarrow> Inl e
      | Inr river_gdf \<Rightarrow>
     (case read_file fs point_path of
        Inl e \<Rightarrow> Inl e
      | Inr point_gdf \<Rightarrow>
     (case ensure_same_crs lib river_gdf point_gdf of
        Inl e \<Rightarrow> Inl e
      | Inr point_gdf \<Rightarrow>
     (case select_rivers lib river_gdf radius []
             (map geometry (rows (multipolygons_to_centroids lib point_gdf))) of
        Inl e \<Rightarrow> Inl e
      | Inr selected_rivers \<Rightarrow>
          if selected_rivers = [] then Inr None
          else (let selected_rivers_gdf = \<lparr>rows = selected_rivers, crs = crs river_gdf\<rparr>
                in case save_layer_as_geojson fs selected_rivers_gdf save_path new_layer_name of
                     Inl e \<Rightarrow> Inl e
                   | Inr saved \<Rightarrow> Inr (Some saved))))))"

text \<open>\<open>process_layers\<close>, lines 159 to 171.\<close>

definition process_layers ::
  "'g filesystem \<Rightarrow> 'g geolib \<Rightarrow> string \<Rightarrow> string \<Rightarrow> string \<Rightarrow> pyval
     \<Rightarrow> error + (string \<times> 'g GeoDataFrame) option" where
  "process_layers fs lib river_path point_path save_path radius =
     (let layer_name = fst (splitext (basename point_path));
          river_name = fst (splitext (basename river_path));
          new_layer_name = layer_name @ ''_'' @ river_name
      in create_new_layer fs lib river_path point_path new_layer_name save_path radius)"

section \<open>The batch\<close>

record args =
  arg_input_path :: string
  arg_river_path :: string
  arg_save_path :: string
  arg_radius :: string
  arg_verbose :: bool

text \<open>
  The two messages that \<open>main\<close> itself prints, both only when \<open>verbose\<close> is set. What the
  tasks print under \<open>verbose\<close> is not part of the model.
\<close>

datatype message = ErrorOccurred error | FinishedCalculation

text \<open>
  What a run of \<open>main\<close> leaves behind: the files written by its tasks, the messages of
  \<open>main\<close> itself, and the total and the count of the progress bar. The files and the
  messages are listed in the order in which the loop takes the futures.
\<close>

record 'g run =
  written :: "(string \<times> 'g GeoDataFrame) list"
  printed :: "message list"
  pbar_total :: nat
  pbar :: nat

text \<open>
  Lines 207 to 211: one task for every point file and every river file, the point files
  in the outer loop.
\<close>

definition submitted :: "string list \<Rightarrow> string list \<Rightarrow> (string \<times> string) list" where
  "submitted files rivers = concat (map (\<lambda>file. map (\<lambda>river. (river, file)) rivers) files)"

text \<open>
  Lines 214 to 220: the loop over the futures, in the order in which they are handed
  to it. \<open>future.result()\<close> raises again what the task raised; the handler prints it
  when \<open>verbose\<close> is set and otherwise drops it. The state is the list of messages
  printed and the count of the progress bar.
\<close>

fun collect :: "bool \<Rightarrow> (error + 'r) list \<Rightarrow> message list \<times> nat \<Rightarrow> message list \<times> nat" where
  "collect v [] state = state"
| "collect v (Inl e # futures) (out, n) =
     collect v futures (if v then out @ [ErrorOccurred e] else out, Suc n)"
| "collect v (Inr r # futures) (out, n) = collect v futures (out, Suc n)"

fun outputs :: "(error + 'f option) list \<Rightarrow> 'f list" where
  "outputs [] = []"
| "outputs (Inr (Some f) # futures) = f # outputs futures"
| "outputs (_ # futures) = outputs futures"

text \<open>
  \<open>main\<close> of \<open>spatial_layer_processor.py\<close>, lines 173 to 223, for tasks that finish in
  the order of submission, each on the files as they are when \<open>main\<close> starts. The pool
  further down has every order of completion and lets the tasks share the files.
\<close>

definition main :: "'g filesystem \<Rightarrow> 'g geolib \<Rightarrow> args \<Rightarrow> error + 'g run" where
  "main fs lib a =
     (let files = list_files fs (arg_input_path a);
          rivers = list_files fs (arg_river_path a)
      in case makedirs fs (arg_save_path a) of
           Some e \<Rightarrow> Inl e
         | None \<Rightarrow>
             (let total_tasks = length files * length rivers;
                  futures = map (\<lambda>(river, file).
                                   process_layers fs lib river file (arg_save_path a) (PyStr (arg_radius a)))
                              (submitted files rivers);
                  (out, n) = collect (arg_verbose a) futures ([], 0)
              in Inr \<lparr>written = outputs futures,
                      printed = out @ (if arg_verbose a then [FinishedCalculation] else []),
                      pbar_total = total_tasks,
                      pbar = n\<rparr>))"

section \<open>The intersection script\<close>

text \<open>
  \<open>multithread_interesect_as_layer_bar.py\<close> has the same batch loop around a simpler
  task: the rivers that intersect the union of the point layer. Its \<open>list_files\<close>
  compares the suffix as it is. Its \<open>main\<close> is given in the same two ways.
\<close>

definition intersect_list_files :: "'g filesystem \<Rightarrow> string \<Rightarrow> string list" where
  "intersect_list_files fs directory =
     concat (map (\<lambda>(root, dirs, files).
                    map (path_join root) (filter (\<lambda>file. endswith file ''.geojson'') files))
               (walk fs directory))"

definition intersect_create_new_layer ::
  "'g filesystem \<Rightarrow> 'g geolib \<Rightarrow> string \<Rightarrow> string \<Rightarrow> string \<Rightarrow> string
     \<Rightarrow> error + (string \<times> 'g GeoDataFrame) option" where
  "intersect_create_new_layer fs lib river_path point_path new_layer_name save_path =
     (case read_file fs river_path of
        Inl e \<Rightarrow> Inl e
      | Inr river_gdf \<Rightarrow>
     (case read_file fs point_path of
        Inl e \<Rightarrow> Inl e
      | Inr point_gdf \<Rightarrow>
     (case ensure_same_crs lib river_gdf point_gdf of
        Inl e \<Rightarrow> Inl e
      | Inr point_gdf \<Rightarrow>
          (let selected_rivers =
                 river_gdf\<lparr>rows := filter (\<lambda>r. intersects_union lib (geometry r)
                                                   (map geometry (rows point_gdf)))
                                       (rows river_gdf)\<rparr>
           in if rows selected_rivers = [] then Inr None
              else (case save_layer_as_geojson fs selected_rivers save_path new_layer_name of
                      Inl e \<Rightarrow> Inl e
                    | Inr saved \<Rightarrow> Inr (Some saved))))))"

definition intersect_process_layers ::
  "'g filesystem \<Rightarrow> 'g geolib \<Rightarrow> string \<Rightarrow> string \<Rightarrow> string
     \<Rightarrow> error + (string \<times> 'g GeoDataFrame) option" where
  "intersect_process_layers fs lib river_path point_path save_path =
     (let layer_name = fst (splitext (basename point_path));
          river_name = fst (splitext (basename river_path));
          new_layer_name = layer_name @ ''_'' @ river_name
      in intersect_create_new_layer fs lib river_path point_path new_layer_name save_path)"

definition intersect_main :: "'g filesystem \<Rightarrow> 'g geolib \<Rightarrow> args \<Rightarrow> error + 'g run" where
  "intersect_main fs lib a =
     (let files = intersect_list_files fs (arg_input_path a);
          rivers = intersect_list_files fs (arg_river_path a)
      in case makedirs fs (arg_save_path a) of
           Some e \<Rightarrow> Inl e
         | None \<Rightarrow>
             (let total_tasks = length files * length rivers;
                  futures = map (\<lambda>(river, file).
                                   intersect_process_layers fs lib river file (arg_save_path a))
                              (submitted files rivers);
                  (out, n) = collect (arg_verbose a) futures ([], 0)
              in Inr \<lparr>written = outputs futures,
                      printed = out @ (if arg_verbose a then [FinishedCalculation] else []),
                      pbar_total = total_tasks,
                      pbar = n\<rparr>))"

section \<open>The pool of threads\<close>

text \<open>
  Above, every task of a batch sees the files as they are when \<open>main\<close> starts, and the
  loop takes the futures in the order of submission. The threads of the pool share the
  file system, and \<open>as_completed\<close> hands the futures to the loop in the order in which
  the tasks finish. Both are made explicit here, at the grain of whole tasks: the tasks
  run one after the other in the order in which they finish, each on the files as the
  tasks before it left them.

  A file that a task has written is what a later \<open>gpd.read_file\<close> of that path returns.
\<close>

definition write_file :: "'g filesystem \<Rightarrow> string \<times> 'g GeoDataFrame \<Rightarrow> 'g filesystem" where
  "write_file fs w = fs\<lparr>read_file := (read_file fs)(fst w := Inr (snd w))\<rparr>"

text \<open>
  The files after a task: the result of \<open>process_layers\<close> names the one file the task has
  written, if any. A task that raises has written nothing, the call of the writer being
  its last statement; when it is the writer that raises, it is taken to leave no file.
\<close>

definition files_after ::
  "'g filesystem \<Rightarrow> error + (string \<times> 'g GeoDataFrame) option \<Rightarrow> 'g filesystem" where
  "files_after fs r = (case r of Inr (Some w) \<Rightarrow> write_file fs w | _ \<Rightarrow> fs)"

text \<open>
  \<open>finish i\<close> is the time at which the task submitted as number \<open>i\<close> finishes; tasks that
  finish at the same time are taken in the order of submission. Every order of
  completion is that of some \<open>finish\<close>.
\<close>

definition in_order_of_completion :: "(nat \<Rightarrow> nat) \<Rightarrow> 't list \<Rightarrow> 't list" where
  "in_order_of_completion finish tasks =
     map (\<lambda>i. tasks ! i) (sort_key finish [0..<length tasks])"

text \<open>The results of the futures in the order of completion, and the files left behind.\<close>

fun run_pool ::
  "('g filesystem \<Rightarrow> 't \<Rightarrow> error + (string \<times> 'g GeoDataFrame) option) \<Rightarrow> 'g filesystem \<Rightarrow> 't list
     \<Rightarrow> (error + (string \<times> 'g GeoDataFrame) option) list \<times> 'g filesystem" where
  "run_pool task fs [] = ([], fs)"
| "run_pool task fs (t # ts) =
     (let r = task fs t;
          (rs, fs') = run_pool task (files_after fs r) ts
      in (r # rs, fs'))"

text \<open>
  \<open>main\<close> of \<open>spatial_layer_processor.py\<close>, lines 173 to 223, and \<open>main\<close> of
  \<open>multithread_interesect_as_layer_bar.py\<close>, lines 94 to 142, with the pool.
\<close>

definition main_scheduled :: "'g filesystem \<Rightarrow> 'g geolib \<Rightarrow> args \<Rightarrow> (nat \<Rightarrow> nat) \<Rightarrow> error + 'g run" where
  "main_scheduled fs lib a finish =
     (let files = list_files fs (arg_input_path a);
          rivers = list_files fs (arg_river_path a)
      in case makedirs fs (arg_save_path a) of
           Some e \<Rightarrow> Inl e
         | None \<Rightarrow>
             (let total_tasks = length files * length rivers;
                  (futures, fs') =
                     run_pool (\<lambda>fs' (river, file).
                                 process_layers fs' lib river file (arg_save_path a)
                                   (PyStr (arg_radius a)))
                       fs (in_order_of_completion finish (submitted files rivers));
                  (out, n) = collect (arg_verbose a) futures ([], 0)
              in Inr \<lparr>written = outputs futures,
                      printed = out @ (if arg_verbose a then [FinishedCalculation] else []),
                      pbar_total = total_tasks,
                      pbar = n\<rparr>))"


section \<open>A geometry library of finite point sets\<close>

text \<open>
  An instance of the library parameters on which the functions can be run. The payload
  of a geometry is the list of its points: the members of a MultiPoint, for a
  MultiPolygon the corners of its ring. Distances are those of the plane. For Point
  and MultiPoint geometries this is what Shapely computes, the buffer being taken as the
  disc whose boundary Shapely approximates by a polygon; a buffer of radius zero or
  less is empty. The centroid is the mean of the points, which is Shapely's centroid of
  a MultiPoint and of a ring that is a triangle or a parallelogram. The instance does
  not see the edges and the interior of a polygon.
\<close>

definition sqdist :: "coord \<Rightarrow> coord \<Rightarrow> real" where
  "sqdist p q = (fst p - fst q)\<^sup>2 + (snd p - snd q)\<^sup>2"

fun points_of :: "coord list geometry \<Rightarrow> coord list" where
  "points_of (Point p) = [p]"
| "points_of (MultiPolygon ps) = ps"
| "points_of (OtherGeometry ps) = ps"

definition mean :: "real list \<Rightarrow> real" where
  "mean xs = sum_list xs / real (length xs)"

text \<open>
  The two reference systems of the sample data, as pyproj converts between them:
  \<open>EPSG:4326\<close> holds degrees of longitude and latitude, \<open>EPSG:3857\<close> metres of the
  spherical Mercator projection on a sphere of radius 6378137.
\<close>

definition earth_radius :: real where
  "earth_radius = 6378137"

definition degrees_to_mercator :: "coord \<Rightarrow> coord" where
  "degrees_to_mercator c =
     (earth_radius * (fst c * pi / 180),
      earth_radius * ln (tan (pi / 4 + snd c * pi / 360)))"

definition mercator_to_degrees :: "coord \<Rightarrow> coord" where
  "mercator_to_degrees c =
     (fst c / earth_radius * 180 / pi,
      (2 * arctan (exp (snd c / earth_radius)) - pi / 2) * 180 / pi)"

definition point_sets :: "coord list geolib" where
  "point_sets =
     \<lparr>centroid = (\<lambda>ps. (mean (map fst ps), mean (map snd ps))),
      intersects_buffer =
        (\<lambda>geom p r. 0 < r \<and> list_ex (\<lambda>q. sqdist q p \<le> r\<^sup>2) (points_of geom)),
      nearest_distance = (\<lambda>p geom. sqrt (Min (set (map (sqdist p) (points_of geom))))),
      transformer =
        (\<lambda>src dst. if src = dst then Inr (\<lambda>c. c)
                   else if src = ''EPSG:3857'' \<and> dst = ''EPSG:4326'' then Inr mercator_to_degrees
                   else if src = ''EPSG:4326'' \<and> dst = ''EPSG:3857'' then Inr degrees_to_mercator
                   else Inl (ExternalError ''unknown CRS'')),
      transform = map,
      intersects_union =
        (\<lambda>geom gs. list_ex (\<lambda>q. q \<in> set (concat (map points_of gs))) (points_of geom))\<rparr>"

definition river_at :: "string \<Rightarrow> coord \<Rightarrow> coord list feature" where
  "river_at name p = \<lparr>geometry = Point p, properties = name\<rparr>"

section \<open>Sample data\<close>

text \<open>
  Four rivers near the origin, each a single point: \<open>A\<close> and \<open>B\<close> to the east, \<open>C\<close> a whole
  degree away, and \<open>D\<close> to the north at the distance of \<open>B\<close>.
\<close>

definition demo_rivers :: "coord list GeoDataFrame" where
  "demo_rivers =
     \<lparr>rows = [river_at ''A'' (2 / 100, 0), river_at ''B'' (1 / 100, 0),
              river_at ''C'' (1, 0), river_at ''D'' (0, 1 / 100)],
      crs = ''EPSG:4326''\<rparr>"

text \<open>
  A point layer in the rivers' reference system, with a town at the origin, a lake whose
  ring is a rectangle around the place of river \<open>A\<close>, and a road that is neither a point
  nor a MultiPolygon. The next layer is the same one in Mercator metres, as a file in
  \<open>EPSG:3857\<close> holds it. The last layer has the road only, in the rivers' system.
\<close>

definition demo_towns :: "coord list GeoDataFrame" where
  "demo_towns =
     \<lparr>rows = [\<lparr>geometry = Point (0, 0), properties = ''town''\<rparr>,
              \<lparr>geometry = MultiPolygon [(1 / 100, - 1 / 100), (3 / 100, - 1 / 100),
                                        (3 / 100, 1 / 100), (1 / 100, 1 / 100)],
               properties = ''lake''\<rparr>,
              \<lparr>geometry = OtherGeometry [(5, 5), (6, 6)], properties = ''road''\<rparr>],
      crs = ''EPSG:4326''\<rparr>"

definition demo_points :: "coord list GeoDataFrame" where
  "demo_points =
     \<lparr>rows = [\<lparr>geometry = Point (degrees_to_mercator (0, 0)), properties = ''town''\<rparr>,
              \<lparr>geometry = MultiPolygon
                 [degrees_to_mercator (1 / 100, - 1 / 100), degrees_to_mercator (3 / 100, - 1 / 100),
                  degrees_to_mercator (3 / 100, 1 / 100), degrees_to_mercator (1 / 100, 1 / 100)],
               properties = ''lake''\<rparr>,
              \<lparr>geometry = OtherGeometry [degrees_to_mercator (5, 5), degrees_to_mercator (6, 6)],
               properties = ''road''\<rparr>],
      crs = ''EPSG:3857''\<rparr>"


text \<open>
  A directory \<open>in\<close> with one point layer and a text file, a directory \<open>rivers\<close> with one
  river layer; every other path cannot be read. Writing and creating directories
  succeed.
\<close>

definition demo_fs :: "coord list GeoDataFrame \<Rightarrow> coord list filesystem" where
  "demo_fs towns =
     \<lparr>walk = (\<lambda>d. if d = ''in'' then [(''in'', [], [''towns.geojson'', ''notes.txt''])]
                  else if d = ''rivers'' then [(''rivers'', [], [''Danube.GEOJSON''])]
                  else []),
      read_file = (\<lambda>p. if p = ''in/towns.geojson'' then Inr towns
                       else if p = ''rivers/Danube.GEOJSON'' then Inr demo_rivers
                       else Inl (ExternalError ''cannot open'')),
      to_file = (\<lambda>p gdf. None),
      makedirs = (\<lambda>p. None)\<rparr>"

text \<open>The same directories, with a point layer that cannot be parsed.\<close>

definition broken_fs :: "coord list filesystem" where
  "broken_fs =
     \<lparr>walk = (\<lambda>d. if d = ''in'' then [(''in'', [], [''towns.geojson'', ''notes.txt''])]
                  else if d = ''rivers'' then [(''rivers'', [], [''Danube.GEOJSON''])]
                  else []),
      read_file = (\<lambda>p. if p = ''rivers/Danube.GEOJSON'' then Inr demo_rivers
                       else Inl (ExternalError ''cannot open'')),
      to_file = (\<lambda>p gdf. None),
      makedirs = (\<lambda>p. None)\<rparr>"

text \<open>A point layer in the rivers' reference system with one hut, ten degrees to the east.\<close>

definition demo_far :: "coord list GeoDataFrame" where
  "demo_far =
     \<lparr>rows = [\<lparr>geometry = Point (10, 0), properties = ''hut''\<rparr>], crs = ''EPSG:4326''\<rparr>"

text \<open>
  A point layer with a ford at the place of river \<open>B\<close>, and directories in which one of the
  two point layers cannot be parsed.
\<close>

definition demo_ford :: "coord list GeoDataFrame" where
  "demo_ford =
     \<lparr>rows = [\<lparr>geometry = Point (1 / 100, 0), properties = ''ford''\<rparr>], crs = ''EPSG:4326''\<rparr>"

definition mixed_fs :: "coord list filesystem" where
  "mixed_fs =
     \<lparr>walk = (\<lambda>d. if d = ''in'' then [(''in'', [], [''broken.geojson'', ''ford.geojson''])]
                  else if d = ''rivers'' then [(''rivers'', [], [''danube.geojson''])]
                  else []),
      read_file = (\<lambda>p. if p = ''in/ford.geojson'' then Inr demo_ford
                       else if p = ''rivers/danube.geojson'' then Inr demo_rivers
                       else Inl (ExternalError ''cannot open'')),
      to_file = (\<lambda>p gdf. None),
      makedirs = (\<lambda>p. None)\<rparr>"


definition demo_args :: "bool \<Rightarrow> args" where
  "demo_args v =
     \<lparr>arg_input_path = ''in'', arg_river_path = ''rivers'', arg_save_path = ''out'',
      arg_radius = ''5000'', arg_verbose = v\<rparr>"

section \<open>The specification's view of the pipeline\<close>

text \<open>
  The points that the specification passes to the Matcher: a Point as it is, the
  centroid of a MultiPolygon, nothing for any other geometry.
\<close>

fun matcher_inputs :: "'g geolib \<Rightarrow> 'g geometry \<Rightarrow> coord list" where
  "matcher_inputs lib (Point p) = [p]"
| "matcher_inputs lib (MultiPolygon g) = [centroid lib g]"
| "matcher_inputs lib (OtherGeometry g) = []"

text \<open>
  The Matcher invoked on every point in order, the matches collected in that order;
  the first exception ends the run.
\<close>

fun match_points ::
  "'g geolib \<Rightarrow> 'g GeoDataFrame \<Rightarrow> pyval \<Rightarrow> 'g feature list \<Rightarrow> coord list
     \<Rightarrow> error + 'g feature list" where
  "match_points lib river_gdf radius collected [] = Inr collected"
| "match_points lib river_gdf radius collected (p # ps) =
     (case find_nearest_river lib p river_gdf radius of
        Inl e \<Rightarrow> Inl e
      | Inr None \<Rightarrow> match_points lib river_gdf radius collected ps
      | Inr (Some r) \<Rightarrow> match_points lib river_gdf radius (collected @ [r]) ps)"

text \<open>The Matcher's answer for a numeric radius, where it raises nothing.\<close>

definition matched :: "'g geolib \<Rightarrow> 'g GeoDataFrame \<Rightarrow> real \<Rightarrow> coord \<Rightarrow> 'g feature option" where
  "matched lib river_gdf m p =
     (case find_nearest_river lib p river_gdf (PyFloat m) of Inl e \<Rightarrow> None | Inr r \<Rightarrow> r)"

text \<open>
  Steps 3 to 6 of the specification's pipeline, for a river collection and the
  geometries of a point collection in the same reference system: normalise, match
  every point against the river collection, produce nothing when nothing matched, and
  otherwise hand the matches to the writer as a collection in the rivers' reference
  system.
\<close>

definition match_and_write ::
  "'g filesystem \<Rightarrow> 'g geolib \<Rightarrow> 'g GeoDataFrame \<Rightarrow> 'g geometry list \<Rightarrow> string \<Rightarrow> string \<Rightarrow> pyval
     \<Rightarrow> error + (string \<times> 'g GeoDataFrame) option" where
  "match_and_write fs lib river_gdf point_geometries name save_path radius =
     (case match_points lib river_gdf radius [] (concat (map (matcher_inputs lib) point_geometries)) of
        Inl e \<Rightarrow> Inl e
      | Inr collected \<Rightarrow>
          if collected = [] then Inr None
          else (case to_file fs (path_join save_path (name @ ''.geojson''))
                       \<lparr>rows = collected, crs = crs river_gdf\<rparr> of
                  Some e \<Rightarrow> Inl e
                | None \<Rightarrow> Inr (Some (path_join save_path (name @ ''.geojson''),
                                      \<lparr>rows = collected, crs = crs river_gdf\<rparr>))))"

text \<open>The exceptions among the results of the futures, in order.\<close>

fun raised :: "(error + 'r) list \<Rightarrow> error list" where
  "raised [] = []"
| "raised (Inl e # futures) = e # raised futures"
| "raised (Inr r # futures) = raised futures"

section \<open>Properties of the radius conversion\<close>

lemma cos_radians_0: "cos (radians 0) = 1"
  by (simp add: radians_def)

lemma cos_radians_60: "cos (radians 60) = 1 / 2"
proof -
  have "radians 60 = pi / 3" by (simp add: radians_def)
  then have "cos (radians 60) = cos (pi / 3)" by (rule arg_cong)
  also have "\<dots> = 1 / 2" by (rule cos_60)
  finally show ?thesis .
qed

text \<open>
  Claim C2. At every latitude where the cosine does not vanish, that is away from the
  poles, which the specification excludes for callers, the converter returns for a
  numeric distance \<open>meters / 111000\<close> degrees of latitude and
  \<open>meters / (111000 * cos (radians latitude))\<close> degrees of longitude; 111000 metres on
  the equator are one degree each way; at latitude 60 the longitude figure is twice the
  latitude figure. Over the reals the two approximations of the claim are exact.
\<close>

theorem meters_to_degrees_formula:
  assumes "cos (radians lat) \<noteq> 0"
  shows "meters_to_degrees (PyFloat m) lat = Inr (m / 111000, m / (111000 * cos (radians lat)))
   \<and> meters_to_degrees (PyFloat 111000) 0 = Inr (1, 1)
   \<and> meters_to_degrees (PyFloat m) 60 = Inr (m / 111000, 2 * (m / 111000))"
  using assms by (simp add: meters_to_degrees_def cos_radians_0 cos_radians_60)

theorem meters_to_degrees_formula_witness:
  "cos (radians 60) \<noteq> 0
   \<and> meters_to_degrees (PyFloat 5000) 60 = Inr (5000 / 111000, 5000 / (111000 * cos (radians 60)))
   \<and> meters_to_degrees (PyFloat 111000) 0 = Inr (1, 1)
   \<and> meters_to_degrees (PyFloat 5000) 60 = Inr (5000 / 111000, 2 * (5000 / 111000))"
proof -
  have nz: "cos (radians 60) \<noteq> 0"
    by (simp add: cos_radians_60)
  from meters_to_degrees_formula [OF nz, of 5000] nz show ?thesis
    by blast
qed

section \<open>The first minimum\<close>

lemma first_min_less: "ds \<noteq> [] \<Longrightarrow> first_min ds < length ds"
  by (induction ds rule: first_min.induct) (auto simp: Let_def)

lemma first_min_le: "j < length ds \<Longrightarrow> ds ! first_min ds \<le> ds ! j"
proof (induction ds arbitrary: j rule: first_min.induct)
  case 1
  then show ?case by simp
next
  case (2 d)
  then show ?case by simp
next
  case (3 d e es)
  show ?case
  proof (cases j)
    case 0
    then show ?thesis by (auto simp: Let_def)
  next
    case (Suc k)
    with 3 have "(e # es) ! first_min (e # es) \<le> (e # es) ! k" by simp
    with Suc show ?thesis by (auto simp: Let_def)
  qed
qed

lemma first_min_strict: "j < first_min ds \<Longrightarrow> ds ! first_min ds < ds ! j"
proof (induction ds arbitrary: j rule: first_min.induct)
  case 1
  then show ?case by simp
next
  case (2 d)
  then show ?case by simp
next
  case (3 d e es)
  let ?k = "first_min (e # es)"
  from 3(2) have nz: "\<not> d \<le> (e # es) ! ?k" and jlt: "j < Suc ?k"
    by (auto simp: Let_def split: if_splits)
  show ?case
  proof (cases j)
    case 0
    with nz show ?thesis by (simp add: Let_def)
  next
    case (Suc k)
    with jlt have "k < ?k" by simp
    then have "(e # es) ! ?k < (e # es) ! k" by (rule 3(1))
    with Suc nz show ?thesis by (simp add: Let_def)
  qed
qed

section \<open>The nearest river\<close>

lemma find_nearest_river_eq:
  assumes "meters_to_degrees radius_meters (snd point) = Inr (degrees_lat, degrees_lon)"
  shows "find_nearest_river lib point rivers radius_meters =
     (let cs = filter (\<lambda>r. intersects_buffer lib (geometry r) point (max degrees_lat degrees_lon))
                 (rows rivers)
      in if cs = [] then Inr None
         else Inr (Some (cs ! first_min (map (\<lambda>r. nearest_distance lib point (geometry r)) cs))))"
proof -
  have "first_min (map f cs) < length cs" if "cs \<noteq> []" for f and cs :: "'a feature list"
    using that first_min_less [of "map f cs"] by simp
  with assms show ?thesis
    by (simp add: find_nearest_river_def idxmin_def loc_def Let_def)
qed

text \<open>
  Claim C1. Let the radius convert to \<open>(degrees_lat, degrees_lon)\<close> at the point's
  latitude. Then \<open>find_nearest_river\<close> returns \<open>None\<close> exactly when no river intersects
  the buffer of radius \<open>max degrees_lat degrees_lon\<close> around the point. Otherwise it
  returns one of the rivers in the buffer whose distance to the point no other river in
  the buffer undercuts, and every river in the buffer that comes before it in the
  collection is strictly farther away: among equidistant rivers the first one wins.
\<close>

theorem find_nearest_river_spec:
  fixes lib :: "'g geolib" and point :: coord and rivers :: "'g GeoDataFrame"
    and degrees_lat degrees_lon :: real
  assumes conv: "meters_to_degrees radius_meters (snd point) = Inr (degrees_lat, degrees_lon)"
  defines "in_buffer \<equiv> \<lambda>r. intersects_buffer lib (geometry r) point (max degrees_lat degrees_lon)"
  defines "dst \<equiv> \<lambda>r. nearest_distance lib point (geometry r)"
  defines "cands \<equiv> filter in_buffer (rows rivers)"
  shows "(find_nearest_river lib point rivers radius_meters = Inr None
            \<longleftrightarrow> \<not> list_ex in_buffer (rows rivers))
       \<and> (list_ex in_buffer (rows rivers) \<longrightarrow>
            (\<exists>i < length cands.
               find_nearest_river lib point rivers radius_meters = Inr (Some (cands ! i))
               \<and> (\<forall>j < length cands. dst (cands ! i) \<le> dst (cands ! j))
               \<and> (\<forall>j < i. dst (cands ! i) < dst (cands ! j))))"
proof -
  let ?ds = "map dst cands"
  let ?i = "first_min ?ds"
  have eq: "find_nearest_river lib point rivers radius_meters =
              (if cands = [] then Inr None else Inr (Some (cands ! ?i)))"
    using find_nearest_river_eq [OF conv, of lib rivers]
    by (simp add: cands_def in_buffer_def dst_def Let_def)
  have empty_iff: "cands = [] \<longleftrightarrow> \<not> list_ex in_buffer (rows rivers)"
    by (auto simp: cands_def list_ex_iff filter_empty_conv)
  show ?thesis
  proof (cases "cands = []")
    case True
    with eq empty_iff show ?thesis by simp
  next
    case False
    then have i: "?i < length cands" using first_min_less [of ?ds] by simp
    have le: "\<forall>j < length cands. dst (cands ! ?i) \<le> dst (cands ! j)"
    proof (intro allI impI)
      fix j assume j: "j < length cands"
      then have "?ds ! ?i \<le> ?ds ! j" using first_min_le [of j ?ds] by simp
      with i j show "dst (cands ! ?i) \<le> dst (cands ! j)" by simp
    qed
    have lt: "\<forall>j < ?i. dst (cands ! ?i) < dst (cands ! j)"
    proof (intro allI impI)
      fix j assume j: "j < ?i"
      then have "?ds ! ?i < ?ds ! j" by (rule first_min_strict)
      with i j show "dst (cands ! ?i) < dst (cands ! j)" by simp
    qed
    from False eq i le lt empty_iff show ?thesis by auto
  qed
qed

lemma demo_in_buffer:
  "filter (\<lambda>r. intersects_buffer point_sets (geometry r) (0, 0) (max (5 / 111) (5 / 111)))
     (rows demo_rivers)
   = [river_at ''A'' (2 / 100, 0), river_at ''B'' (1 / 100, 0), river_at ''D'' (0, 1 / 100)]"
  by (simp add: demo_rivers_def point_sets_def river_at_def sqdist_def power2_eq_square)

theorem find_nearest_river_spec_witness:
  "meters_to_degrees (PyFloat 5000) (snd (0, 0)) = Inr (5 / 111, 5 / 111)
   \<and> list_ex (\<lambda>r. intersects_buffer point_sets (geometry r) (0, 0) (max (5 / 111) (5 / 111)))
         (rows demo_rivers)
   \<and> (\<exists>i < length (filter (\<lambda>r. intersects_buffer point_sets (geometry r) (0, 0)
                                   (max (5 / 111) (5 / 111))) (rows demo_rivers)).
         find_nearest_river point_sets (0, 0) demo_rivers (PyFloat 5000)
           = Inr (Some (filter (\<lambda>r. intersects_buffer point_sets (geometry r) (0, 0)
                                   (max (5 / 111) (5 / 111))) (rows demo_rivers) ! i))
         \<and> (\<forall>j < i. nearest_distance point_sets (0, 0)
                        (geometry (filter (\<lambda>r. intersects_buffer point_sets (geometry r) (0, 0)
                                   (max (5 / 111) (5 / 111))) (rows demo_rivers) ! i))
                    < nearest_distance point_sets (0, 0)
                        (geometry (filter (\<lambda>r. intersects_buffer point_sets (geometry r) (0, 0)
                                   (max (5 / 111) (5 / 111))) (rows demo_rivers) ! j))))"
proof -
  have conv: "meters_to_degrees (PyFloat 5000) (snd (0, 0)) = Inr (5 / 111, 5 / 111)"
    by (simp add: meters_to_degrees_def cos_radians_0)
  have ex: "list_ex (\<lambda>r. intersects_buffer point_sets (geometry r) (0, 0) (max (5 / 111) (5 / 111)))
              (rows demo_rivers)"
    by (simp add: demo_rivers_def point_sets_def river_at_def sqdist_def power2_eq_square)
  from find_nearest_river_spec [OF conv, of point_sets demo_rivers] ex conv show ?thesis
    by blast
qed



section \<open>The pipeline of one pair\<close>

lemma find_nearest_river_float:
  "find_nearest_river lib p river_gdf (PyFloat m) = Inr (matched lib river_gdf m p)"
proof -
  obtain degrees_lon where
    "meters_to_degrees (PyFloat m) (snd p) = Inr (m / 111000, degrees_lon)"
    by (simp add: meters_to_degrees_def Let_def)
  from find_nearest_river_eq [OF this, of lib river_gdf]
  obtain r where "find_nearest_river lib p river_gdf (PyFloat m) = Inr r"
    by (auto simp: Let_def split: if_splits)
  then show ?thesis by (simp add: matched_def)
qed

lemma find_nearest_river_str: "find_nearest_river lib p river_gdf (PyStr s) = Inl TypeError"
  by (simp add: find_nearest_river_def meters_to_degrees_def)

lemma select_rivers_match_points:
  "select_rivers lib river_gdf radius acc (map (centroid_if_multipolygon lib) geoms)
   = match_points lib river_gdf radius acc (concat (map (matcher_inputs lib) geoms))"
proof (induction geoms arbitrary: acc)
  case Nil
  then show ?case by simp
next
  case (Cons g geoms)
  show ?case
  proof (cases g)
    case (Point p)
    with Cons show ?thesis
      by (simp add: centroid_if_multipolygon_def split: sum.splits option.splits)
  next
    case (MultiPolygon m)
    with Cons show ?thesis
      by (simp add: centroid_if_multipolygon_def split: sum.splits option.splits)
  next
    case (OtherGeometry x)
    with Cons show ?thesis by (simp add: centroid_if_multipolygon_def)
  qed
qed

lemma geometry_multipolygons_to_centroids:
  "map geometry (rows (multipolygons_to_centroids lib point_gdf))
   = map (centroid_if_multipolygon lib) (map geometry (rows point_gdf))"
  by (simp add: multipolygons_to_centroids_def comp_def)

text \<open>
  Claim C6. The loop of \<open>create_new_layer\<close> over the normalised geometry column does what
  the specification says: the Matcher is invoked on every Point as it is and on the
  centroid of every MultiPolygon, in the order of the layer, and on nothing else; a
  geometry of any other kind reaches neither the Matcher nor the collected rivers. This
  holds for every radius value, also where the Matcher raises.
\<close>

theorem normalization_spec:
  "select_rivers lib river_gdf radius []
     (map geometry (rows (multipolygons_to_centroids lib point_gdf)))
   = match_points lib river_gdf radius []
       (concat (map (matcher_inputs lib) (map geometry (rows point_gdf))))"
  by (simp only: geometry_multipolygons_to_centroids select_rivers_match_points)

lemma match_points_float:
  "match_points lib river_gdf (PyFloat m) acc ps
   = Inr (acc @ List.map_filter (matched lib river_gdf m) ps)"
  by (induction ps arbitrary: acc)
     (simp_all add: find_nearest_river_float List.map_filter_simps split: option.splits)

lemma match_points_str:
  "match_points lib river_gdf (PyStr s) acc ps = (if ps = [] then Inr acc else Inl TypeError)"
  by (cases ps) (simp_all add: find_nearest_river_str)



section \<open>Sample runs and reference systems\<close>

lemma demo_list_files:
  "list_files (demo_fs t) ''in'' = [''in/towns.geojson'']"
  "list_files (demo_fs t) ''rivers'' = [''rivers/Danube.GEOJSON'']"
  "list_files broken_fs ''in'' = [''in/towns.geojson'']"
  "list_files broken_fs ''rivers'' = [''rivers/Danube.GEOJSON'']"
  by code_simp+

lemma demo_names:
  "fst (splitext (basename ''in/towns.geojson'')) = ''towns''"
  "fst (splitext (basename ''rivers/Danube.GEOJSON'')) = ''Danube''"
  by (simp_all add: splitext_def basename_def rfind_def)

lemma geometry_to_crs:
  "to_crs lib gdf target = Inr out \<Longrightarrow> transformer lib (crs gdf) target = Inr f
   \<Longrightarrow> map geometry (rows out) = map (transform_geometry lib f) (map geometry (rows gdf))"
  by (auto simp: to_crs_def)

lemma create_new_layer_reconciled:
  assumes "read_file fs river_path = Inr river_gdf"
    and "read_file fs point_path = Inr point_gdf"
    and "ensure_same_crs lib river_gdf point_gdf = Inr reconciled"
  shows "create_new_layer fs lib river_path point_path name save_path radius
         = match_and_write fs lib river_gdf (map geometry (rows reconciled)) name save_path radius"
proof -
  have loop: "select_rivers lib river_gdf radius []
                (map geometry (rows (multipolygons_to_centroids lib reconciled)))
              = match_points lib river_gdf radius []
                  (concat (map (matcher_inputs lib) (map geometry (rows reconciled))))"
    by (simp only: geometry_multipolygons_to_centroids select_rivers_match_points)
  show ?thesis
    unfolding create_new_layer_def match_and_write_def save_layer_as_geojson_def Let_def
    using assms by (simp add: loop split: sum.splits option.splits)
qed

text \<open>
  Claim C5. Let both layers load. Where their reference systems are equal,
  \<open>create_new_layer\<close> matches the point geometries as they were read. Where they differ,
  it matches the point geometries carried, each in its kind, through the transformation
  from the point layer's system into the rivers' system, and it fails with the
  library's exception when there is no such transformation. The reconciled point layer
  bears the rivers' system and keeps its attributes. The river layer is passed on as it
  was read: the Matcher searches it unchanged, and the written collection carries its
  reference system.
\<close>

theorem crs_reconciliation:
  assumes rr: "read_file fs river_path = Inr river_gdf"
    and rp: "read_file fs point_path = Inr point_gdf"
  shows "(crs point_gdf = crs river_gdf \<longrightarrow>
            create_new_layer fs lib river_path point_path name save_path radius
            = match_and_write fs lib river_gdf (map geometry (rows point_gdf)) name save_path radius)
       \<and> (crs point_gdf \<noteq> crs river_gdf
            \<and> transformer lib (crs point_gdf) (crs river_gdf) = Inr f \<longrightarrow>
            create_new_layer fs lib river_path point_path name save_path radius
            = match_and_write fs lib river_gdf
                (map (transform_geometry lib f) (map geometry (rows point_gdf))) name save_path radius)
       \<and> (crs point_gdf \<noteq> crs river_gdf
            \<and> transformer lib (crs point_gdf) (crs river_gdf) = Inl e \<longrightarrow>
            create_new_layer fs lib river_path point_path name save_path radius = Inl e)
       \<and> (ensure_same_crs lib river_gdf point_gdf = Inr reconciled \<longrightarrow>
            crs reconciled = crs river_gdf
            \<and> map properties (rows reconciled) = map properties (rows point_gdf))"
proof (intro conjI impI)
  assume "crs point_gdf = crs river_gdf"
  then have "ensure_same_crs lib river_gdf point_gdf = Inr point_gdf"
    by (simp add: ensure_same_crs_def)
  from create_new_layer_reconciled [OF rr rp this]
  show "create_new_layer fs lib river_path point_path name save_path radius
        = match_and_write fs lib river_gdf (map geometry (rows point_gdf)) name save_path radius" .
next
  assume a: "crs point_gdf \<noteq> crs river_gdf
             \<and> transformer lib (crs point_gdf) (crs river_gdf) = Inr f"
  then obtain reconciled where ok: "to_crs lib point_gdf (crs river_gdf) = Inr reconciled"
    by (auto simp: to_crs_def)
  with a have e: "ensure_same_crs lib river_gdf point_gdf = Inr reconciled"
    by (auto simp: ensure_same_crs_def)
  from geometry_to_crs [OF ok] a
  have "map geometry (rows reconciled)
        = map (transform_geometry lib f) (map geometry (rows point_gdf))"
    by simp
  with create_new_layer_reconciled [OF rr rp e]
  show "create_new_layer fs lib river_path point_path name save_path radius
        = match_and_write fs lib river_gdf
            (map (transform_geometry lib f) (map geometry (rows point_gdf))) name save_path radius"
    by simp
next
  assume "crs point_gdf \<noteq> crs river_gdf
          \<and> transformer lib (crs point_gdf) (crs river_gdf) = Inl e"
  then have "ensure_same_crs lib river_gdf point_gdf = Inl e"
    by (auto simp: ensure_same_crs_def to_crs_def)
  with rr rp show "create_new_layer fs lib river_path point_path name save_path radius = Inl e"
    by (simp add: create_new_layer_def)
next
  assume "ensure_same_crs lib river_gdf point_gdf = Inr reconciled"
  then show "crs reconciled = crs river_gdf"
    by (auto simp: ensure_same_crs_def to_crs_def split: if_splits sum.splits)
next
  assume "ensure_same_crs lib river_gdf point_gdf = Inr reconciled"
  then show "map properties (rows reconciled) = map properties (rows point_gdf)"
    by (auto simp: ensure_same_crs_def to_crs_def split: if_splits sum.splits)
qed

section \<open>The batch loop\<close>

lemma collect_eq:
  "collect v futures (out, n)
   = (out @ (if v then map ErrorOccurred (raised futures) else []), n + length futures)"
proof (induction futures arbitrary: out n)
  case Nil
  then show ?case by simp
next
  case (Cons f futures)
  then show ?case by (cases f) simp_all
qed

lemma outputs_append: "outputs (fs1 @ fs2) = outputs fs1 @ outputs fs2"
  by (induction fs1 rule: outputs.induct) simp_all

lemma raised_append: "raised (fs1 @ fs2) = raised fs1 @ raised fs2"
  by (induction fs1 rule: raised.induct) simp_all

lemma length_submitted: "length (submitted files rivers) = length files * length rivers"
  by (induction files) (simp_all add: submitted_def)

lemma main_eq:
  assumes "makedirs fs (arg_save_path a) = None"
  shows "main fs lib a =
     (let futures = map (\<lambda>(river, file).
                           process_layers fs lib river file (arg_save_path a) (PyStr (arg_radius a)))
                      (submitted (list_files fs (arg_input_path a)) (list_files fs (arg_river_path a)))
      in Inr \<lparr>written = outputs futures,
              printed = (if arg_verbose a then map ErrorOccurred (raised futures) @ [FinishedCalculation]
                         else []),
              pbar_total = length futures,
              pbar = length futures\<rparr>)"
  using assms by (simp add: main_def Let_def collect_eq length_submitted)

lemma intersect_main_eq:
  assumes "makedirs fs (arg_save_path a) = None"
  shows "intersect_main fs lib a =
     (let futures = map (\<lambda>(river, file).
                           intersect_process_layers fs lib river file (arg_save_path a))
                      (submitted (intersect_list_files fs (arg_input_path a))
                         (intersect_list_files fs (arg_river_path a)))
      in Inr \<lparr>written = outputs futures,
              printed = (if arg_verbose a then map ErrorOccurred (raised futures) @ [FinishedCalculation]
                         else []),
              pbar_total = length futures,
              pbar = length futures\<rparr>)"
  using assms by (simp add: intersect_main_def Let_def collect_eq length_submitted)


section \<open>The radius of the command line\<close>

lemma select_rivers_str:
  "Point p \<in> set geoms \<Longrightarrow> select_rivers lib river_gdf (PyStr s) acc geoms = Inl TypeError"
proof (induction geoms arbitrary: acc)
  case Nil
  then show ?case by simp
next
  case (Cons g geoms)
  then show ?case by (cases g) (auto simp: find_nearest_river_str)
qed

lemma point_kept_by_centroids:
  "Point p \<in> set geoms \<Longrightarrow> Point p \<in> set (map (centroid_if_multipolygon lib) geoms)"
  by (force simp: centroid_if_multipolygon_def)

lemma point_kept_by_to_crs:
  assumes "to_crs lib gdf target = Inr out" and "Point p \<in> set (map geometry (rows gdf))"
  shows "\<exists>q. Point q \<in> set (map geometry (rows out))"
proof -
  from assms(1) obtain f where f: "transformer lib (crs gdf) target = Inr f"
    and out: "out = \<lparr>rows = map (\<lambda>r. r\<lparr>geometry := transform_geometry lib f (geometry r)\<rparr>) (rows gdf),
                      crs = target\<rparr>"
    by (auto simp: to_crs_def split: sum.splits)
  from assms(2) obtain r where r: "r \<in> set (rows gdf)" and g: "geometry r = Point p" by auto
  then have "Point (f p) \<in> set (map geometry (rows out))"
    by (force simp: out)
  then show ?thesis ..
qed

lemma point_kept_by_ensure_same_crs:
  assumes "ensure_same_crs lib river_gdf point_gdf = Inr out"
    and "Point p \<in> set (map geometry (rows point_gdf))"
  shows "\<exists>q. Point q \<in> set (map geometry (rows out))"
proof (cases "crs river_gdf = crs point_gdf")
  case True
  with assms(1) have "out = point_gdf" by (simp add: ensure_same_crs_def)
  with assms(2) show ?thesis by blast
next
  case False
  with assms(1) have "to_crs lib point_gdf (crs river_gdf) = Inr out"
    by (simp add: ensure_same_crs_def)
  from point_kept_by_to_crs [OF this assms(2)] show ?thesis .
qed

lemma create_new_layer_str:
  assumes rr: "read_file fs river_path = Inr river_gdf"
    and rp: "read_file fs point_path = Inr point_gdf"
    and ok: "ensure_same_crs lib river_gdf point_gdf = Inr point_gdf'"
    and pt: "Point p \<in> set (map geometry (rows point_gdf))"
  shows "create_new_layer fs lib river_path point_path name save (PyStr s) = Inl TypeError"
proof -
  from point_kept_by_ensure_same_crs [OF ok pt]
  obtain q where "Point q \<in> set (map geometry (rows point_gdf'))" ..
  then have "Point q \<in> set (map geometry (rows (multipolygons_to_centroids lib point_gdf')))"
    unfolding geometry_multipolygons_to_centroids by (rule point_kept_by_centroids)
  then have "select_rivers lib river_gdf (PyStr s) []
               (map geometry (rows (multipolygons_to_centroids lib point_gdf'))) = Inl TypeError"
    by (rule select_rivers_str)
  with rr rp ok show ?thesis by (simp add: create_new_layer_def)
qed

lemma create_new_layer_str_fails:
  assumes rp: "read_file fs point_path = Inr point_gdf"
    and pt: "Point p \<in> set (map geometry (rows point_gdf))"
  shows "isl (create_new_layer fs lib river_path point_path name save (PyStr s))"
proof (cases "read_file fs river_path")
  case (Inl e)
  then show ?thesis by (simp add: create_new_layer_def)
next
  case (Inr river_gdf)
  show ?thesis
  proof (cases "ensure_same_crs lib river_gdf point_gdf")
    case (Inl e)
    with Inr rp show ?thesis by (simp add: create_new_layer_def)
  next
    case ok: (Inr point_gdf')
    from create_new_layer_str [OF Inr rp ok pt] show ?thesis by simp
  qed
qed

text \<open>
  Claim C3. \<open>main\<close> hands the \<open>--radius\<close> option to every task as the string that
  \<open>argparse\<close> produced, and \<open>meters_to_degrees\<close> raises \<open>TypeError\<close> on a string. So a
  task whose point layer holds a Point fails, with \<open>TypeError\<close> when both layers load
  and the reprojection succeeds, and without \<open>--verbose\<close> the run prints nothing.
\<close>

theorem cli_radius_string:
  assumes mk: "makedirs fs (arg_save_path a) = None"
    and quiet: "\<not> arg_verbose a"
    and rp: "read_file fs file = Inr point_gdf"
    and pt: "Point p \<in> set (map geometry (rows point_gdf))"
  shows "(let futures = map (\<lambda>(river, file).
                               process_layers fs lib river file (arg_save_path a) (PyStr (arg_radius a)))
                          (submitted (list_files fs (arg_input_path a))
                             (list_files fs (arg_river_path a)))
          in main fs lib a = Inr \<lparr>written = outputs futures, printed = [],
                                   pbar_total = length futures, pbar = length futures\<rparr>)
       \<and> meters_to_degrees (PyStr (arg_radius a)) latitude = Inl TypeError
       \<and> isl (process_layers fs lib river file (arg_save_path a) (PyStr (arg_radius a)))
       \<and> (read_file fs river = Inr river_gdf
            \<and> ensure_same_crs lib river_gdf point_gdf = Inr point_gdf'
          \<longrightarrow> process_layers fs lib river file (arg_save_path a) (PyStr (arg_radius a))
                = Inl TypeError)"
proof -
  have 1: "meters_to_degrees (PyStr (arg_radius a)) latitude = Inl TypeError"
    by (simp add: meters_to_degrees_def)
  have 2: "isl (process_layers fs lib river file (arg_save_path a) (PyStr (arg_radius a)))"
    unfolding process_layers_def Let_def by (rule create_new_layer_str_fails [OF rp pt])
  have 3: "process_layers fs lib river file (arg_save_path a) (PyStr (arg_radius a)) = Inl TypeError"
    if "read_file fs river = Inr river_gdf" "ensure_same_crs lib river_gdf point_gdf = Inr point_gdf'"
    unfolding process_layers_def Let_def
    by (rule create_new_layer_str [OF that(1) rp that(2) pt])
  from main_eq [OF mk, of lib] quiet 1 2 3 show ?thesis by (simp add: Let_def)
qed


lemma demo_fs_simps:
  "makedirs (demo_fs t) p = None"
  "to_file (demo_fs t) p gdf = None"
  "read_file (demo_fs t) ''in/towns.geojson'' = Inr t"
  "read_file (demo_fs t) ''rivers/Danube.GEOJSON'' = Inr demo_rivers"
  "makedirs broken_fs p = None"
  "read_file broken_fs ''in/towns.geojson'' = Inl (ExternalError ''cannot open'')"
  "read_file broken_fs ''rivers/Danube.GEOJSON'' = Inr demo_rivers"
  by (simp_all add: demo_fs_def broken_fs_def)

lemma demo_args_simps:
  "arg_input_path (demo_args v) = ''in''"
  "arg_river_path (demo_args v) = ''rivers''"
  "arg_save_path (demo_args v) = ''out''"
  "arg_radius (demo_args v) = ''5000''"
  "arg_verbose (demo_args v) = v"
  by (simp_all add: demo_args_def)

lemma demo_submitted:
  "submitted [''in/towns.geojson''] [''rivers/Danube.GEOJSON'']
   = [(''rivers/Danube.GEOJSON'', ''in/towns.geojson'')]"
  by (simp add: submitted_def)

lemma mercator_round_trip:
  assumes "- 90 < lat" and "lat < 90"
  shows "mercator_to_degrees (degrees_to_mercator (lon, lat)) = (lon, lat)"
proof -
  let ?t = "pi / 4 + lat * pi / 360"
  have lo: "0 < ?t"
  proof -
    have "(- 90) * pi < lat * pi" using assms(1) pi_gt_zero by (simp only: mult_less_cancel_right_pos)
    then show ?thesis by linarith
  qed
  have hi: "?t < pi / 2"
  proof -
    have "lat * pi < 90 * pi" using assms(2) pi_gt_zero by (simp only: mult_less_cancel_right_pos)
    then show ?thesis by linarith
  qed
  have pos: "0 < tan ?t" using lo hi by (rule tan_gt_zero)
  have "arctan (exp (ln (tan ?t))) = arctan (tan ?t)" using pos by simp
  also have "\<dots> = ?t"
  proof (rule arctan_tan)
    show "- (pi / 2) < ?t" using lo pi_gt_zero by linarith
    show "?t < pi / 2" by (rule hi)
  qed
  finally have a: "arctan (exp (ln (tan ?t))) = ?t" .
  have y: "(2 * ?t - pi / 2) * 180 / pi = lat" using pi_gt_zero by (simp add: field_simps)
  show ?thesis
    by (simp add: mercator_to_degrees_def degrees_to_mercator_def earth_radius_def a y)
qed

lemma mercator_origin: "degrees_to_mercator (0, 0) = (0, 0)"
  by (simp add: degrees_to_mercator_def tan_45)

lemma mercator_moves: "degrees_to_mercator (1 / 100, 0) \<noteq> (1 / 100, 0)"
proof
  assume "degrees_to_mercator (1 / 100, 0) = (1 / 100, 0)"
  then have "earth_radius * (1 / 100 * pi / 180) = 1 / 100"
    by (simp add: degrees_to_mercator_def)
  then have "pi = 180 / 6378137" by (simp add: earth_radius_def field_simps)
  with pi_gt_zero pi_ge_two show False by simp
qed

lemma demo_reprojected:
  "ensure_same_crs point_sets demo_rivers demo_points = Inr demo_towns"
  by (simp add: ensure_same_crs_def to_crs_def demo_rivers_def demo_points_def demo_towns_def
      point_sets_def mercator_round_trip)

theorem cli_radius_string_witness:
  "makedirs (demo_fs demo_points) (arg_save_path (demo_args False)) = None
   \<and> \<not> arg_verbose (demo_args False)
   \<and> read_file (demo_fs demo_points) ''in/towns.geojson'' = Inr demo_points
   \<and> Point (degrees_to_mercator (0, 0)) \<in> set (map geometry (rows demo_points))
   \<and> read_file (demo_fs demo_points) ''rivers/Danube.GEOJSON'' = Inr demo_rivers
   \<and> ensure_same_crs point_sets demo_rivers demo_points = Inr demo_towns
   \<and> process_layers (demo_fs demo_points) point_sets ''rivers/Danube.GEOJSON''
         ''in/towns.geojson'' ''out'' (PyStr ''5000'') = Inl TypeError
   \<and> main (demo_fs demo_points) point_sets (demo_args False)
       = Inr \<lparr>written = [], printed = [], pbar_total = 1, pbar = 1\<rparr>"
proof -
  have mk: "makedirs (demo_fs demo_points) (arg_save_path (demo_args False)) = None"
    by (simp add: demo_fs_simps)
  have quiet: "\<not> arg_verbose (demo_args False)"
    by (simp add: demo_args_simps)
  have rp: "read_file (demo_fs demo_points) ''in/towns.geojson'' = Inr demo_points"
    by (simp add: demo_fs_simps)
  have pt: "Point (degrees_to_mercator (0, 0)) \<in> set (map geometry (rows demo_points))"
    by (simp add: demo_points_def)
  have rr: "read_file (demo_fs demo_points) ''rivers/Danube.GEOJSON'' = Inr demo_rivers"
    by (simp add: demo_fs_simps)
  note inst = cli_radius_string [OF mk quiet rp pt, of point_sets 0 "''rivers/Danube.GEOJSON''"
      demo_rivers demo_towns]
  from inst rr demo_reprojected
  have task: "process_layers (demo_fs demo_points) point_sets ''rivers/Danube.GEOJSON''
         ''in/towns.geojson'' ''out'' (PyStr ''5000'') = Inl TypeError"
    by (simp add: demo_args_simps)
  from inst have "main (demo_fs demo_points) point_sets (demo_args False)
       = Inr \<lparr>written = [], printed = [], pbar_total = 1, pbar = 1\<rparr>"
    by (simp add: Let_def demo_args_simps demo_list_files demo_submitted task)
  with mk quiet rp pt rr demo_reprojected task show ?thesis by simp
qed


lemma demo_selected:
  "select_rivers point_sets demo_rivers (PyFloat 5000) []
     (map geometry (rows (multipolygons_to_centroids point_sets demo_towns)))
   = Inr [river_at ''B'' (1 / 100, 0), river_at ''A'' (2 / 100, 0)]"
  by (simp add: find_nearest_river_def meters_to_degrees_def cos_radians_0 demo_rivers_def
      demo_towns_def point_sets_def river_at_def sqdist_def idxmin_def loc_def power2_eq_square
      multipolygons_to_centroids_def centroid_if_multipolygon_def mean_def)

lemma demo_pipeline:
  "create_new_layer (demo_fs demo_points) point_sets ''rivers/Danube.GEOJSON'' ''in/towns.geojson''
     ''towns_Danube'' ''out'' (PyFloat 5000)
   = Inr (Some (''out/towns_Danube.geojson'',
                \<lparr>rows = [river_at ''B'' (1 / 100, 0), river_at ''A'' (2 / 100, 0)],
                 crs = ''EPSG:4326''\<rparr>))"
  by (simp add: create_new_layer_def demo_fs_simps demo_reprojected demo_selected
      save_layer_as_geojson_def path_join_def)
     (simp add: demo_rivers_def)

lemma demo_transformed:
  "map (transform_geometry point_sets mercator_to_degrees) (map geometry (rows demo_points))
   = map geometry (rows demo_towns)"
  by (simp add: demo_points_def demo_towns_def point_sets_def mercator_round_trip)

lemma demo_moved: "map geometry (rows demo_points) \<noteq> map geometry (rows demo_towns)"
proof
  assume "map geometry (rows demo_points) = map geometry (rows demo_towns)"
  then have "degrees_to_mercator (1 / 100, - 1 / 100) = (1 / 100, - 1 / 100)"
    by (simp add: demo_points_def demo_towns_def)
  then have "earth_radius * (1 / 100 * pi / 180) = 1 / 100"
    by (simp add: degrees_to_mercator_def)
  then have "pi = 180 / 6378137" by (simp add: earth_radius_def field_simps)
  with pi_gt_zero pi_ge_two show False by simp
qed

theorem crs_reconciliation_witness:
  "read_file (demo_fs demo_far) ''rivers/Danube.GEOJSON'' = Inr demo_rivers
   \<and> read_file (demo_fs demo_far) ''in/towns.geojson'' = Inr demo_far
   \<and> crs demo_far = crs demo_rivers
   \<and> create_new_layer (demo_fs demo_far) point_sets ''rivers/Danube.GEOJSON''
         ''in/towns.geojson'' ''towns_Danube'' ''out'' (PyFloat 5000)
       = match_and_write (demo_fs demo_far) point_sets demo_rivers (map geometry (rows demo_far))
           ''towns_Danube'' ''out'' (PyFloat 5000)
   \<and> read_file (demo_fs demo_points) ''rivers/Danube.GEOJSON'' = Inr demo_rivers
   \<and> read_file (demo_fs demo_points) ''in/towns.geojson'' = Inr demo_points
   \<and> crs demo_points \<noteq> crs demo_rivers
   \<and> transformer point_sets (crs demo_points) (crs demo_rivers) = Inr mercator_to_degrees
   \<and> create_new_layer (demo_fs demo_points) point_sets ''rivers/Danube.GEOJSON''
         ''in/towns.geojson'' ''towns_Danube'' ''out'' (PyFloat 5000)
       = match_and_write (demo_fs demo_points) point_sets demo_rivers
           (map (transform_geometry point_sets mercator_to_degrees) (map geometry (rows demo_points)))
           ''towns_Danube'' ''out'' (PyFloat 5000)
   \<and> map (transform_geometry point_sets mercator_to_degrees) (map geometry (rows demo_points))
       = map geometry (rows demo_towns)
   \<and> map geometry (rows demo_points) \<noteq> map geometry (rows demo_towns)
   \<and> create_new_layer (demo_fs demo_points) point_sets ''rivers/Danube.GEOJSON''
         ''in/towns.geojson'' ''towns_Danube'' ''out'' (PyFloat 5000)
       = Inr (Some (''out/towns_Danube.geojson'',
                    \<lparr>rows = [river_at ''B'' (1 / 100, 0), river_at ''A'' (2 / 100, 0)],
                     crs = ''EPSG:4326''\<rparr>))
   \<and> read_file (demo_fs (demo_far\<lparr>crs := ''EPSG:2154''\<rparr>)) ''rivers/Danube.GEOJSON''
       = Inr demo_rivers
   \<and> read_file (demo_fs (demo_far\<lparr>crs := ''EPSG:2154''\<rparr>)) ''in/towns.geojson''
       = Inr (demo_far\<lparr>crs := ''EPSG:2154''\<rparr>)
   \<and> crs (demo_far\<lparr>crs := ''EPSG:2154''\<rparr>) \<noteq> crs demo_rivers
   \<and> transformer point_sets (crs (demo_far\<lparr>crs := ''EPSG:2154''\<rparr>)) (crs demo_rivers)
       = Inl (ExternalError ''unknown CRS'')
   \<and> create_new_layer (demo_fs (demo_far\<lparr>crs := ''EPSG:2154''\<rparr>)) point_sets
         ''rivers/Danube.GEOJSON'' ''in/towns.geojson'' ''towns_Danube'' ''out'' (PyFloat 5000)
       = Inl (ExternalError ''unknown CRS'')
   \<and> ensure_same_crs point_sets demo_rivers demo_points = Inr demo_towns
   \<and> crs demo_towns = crs demo_rivers
   \<and> map properties (rows demo_towns) = map properties (rows demo_points)"
proof -
  let ?lambert = "demo_far\<lparr>crs := ''EPSG:2154''\<rparr>"
  have rr1: "read_file (demo_fs demo_far) ''rivers/Danube.GEOJSON'' = Inr demo_rivers"
    and rp1: "read_file (demo_fs demo_far) ''in/towns.geojson'' = Inr demo_far"
    and rr2: "read_file (demo_fs demo_points) ''rivers/Danube.GEOJSON'' = Inr demo_rivers"
    and rp2: "read_file (demo_fs demo_points) ''in/towns.geojson'' = Inr demo_points"
    and rr3: "read_file (demo_fs ?lambert) ''rivers/Danube.GEOJSON'' = Inr demo_rivers"
    and rp3: "read_file (demo_fs ?lambert) ''in/towns.geojson'' = Inr ?lambert"
    by (simp_all add: demo_fs_simps)
  have same: "crs demo_far = crs demo_rivers"
    by (simp add: demo_far_def demo_rivers_def)
  have differ: "crs demo_points \<noteq> crs demo_rivers"
    by (simp add: demo_points_def demo_rivers_def)
  have tr: "transformer point_sets (crs demo_points) (crs demo_rivers) = Inr mercator_to_degrees"
    by (simp add: demo_points_def demo_rivers_def point_sets_def)
  have differ3: "crs ?lambert \<noteq> crs demo_rivers"
    by (simp add: demo_rivers_def)
  have tr3: "transformer point_sets (crs ?lambert) (crs demo_rivers)
             = Inl (ExternalError ''unknown CRS'')"
    by (simp add: demo_rivers_def point_sets_def)
  note a = crs_reconciliation [OF rr1 rp1, of point_sets "''towns_Danube''" "''out''" "PyFloat 5000"]
  note b = crs_reconciliation [OF rr2 rp2, of point_sets "''towns_Danube''" "''out''" "PyFloat 5000"
      mercator_to_degrees _ demo_towns]
  note c = crs_reconciliation [OF rr3 rp3, of point_sets "''towns_Danube''" "''out''" "PyFloat 5000"
      _ "ExternalError ''unknown CRS''"]
  from a same
  have 1: "create_new_layer (demo_fs demo_far) point_sets ''rivers/Danube.GEOJSON''
         ''in/towns.geojson'' ''towns_Danube'' ''out'' (PyFloat 5000)
       = match_and_write (demo_fs demo_far) point_sets demo_rivers (map geometry (rows demo_far))
           ''towns_Danube'' ''out'' (PyFloat 5000)"
    by blast
  from b differ tr
  have 2: "create_new_layer (demo_fs demo_points) point_sets ''rivers/Danube.GEOJSON''
         ''in/towns.geojson'' ''towns_Danube'' ''out'' (PyFloat 5000)
       = match_and_write (demo_fs demo_points) point_sets demo_rivers
           (map (transform_geometry point_sets mercator_to_degrees) (map geometry (rows demo_points)))
           ''towns_Danube'' ''out'' (PyFloat 5000)"
    by blast
  from c differ3 tr3
  have 3: "create_new_layer (demo_fs ?lambert) point_sets
         ''rivers/Danube.GEOJSON'' ''in/towns.geojson'' ''towns_Danube'' ''out'' (PyFloat 5000)
       = Inl (ExternalError ''unknown CRS'')"
    by blast
  from b demo_reprojected
  have 4: "crs demo_towns = crs demo_rivers
           \<and> map properties (rows demo_towns) = map properties (rows demo_points)"
    by blast
  from rr1 rp1 same 1 rr2 rp2 differ tr 2 demo_transformed demo_moved demo_pipeline
    rr3 rp3 differ3 tr3 3 demo_reprojected 4
  show ?thesis by blast
qed

section \<open>Tasks without a match, tasks with matches\<close>

lemma demo_far_selected:
  "select_rivers point_sets demo_rivers (PyFloat 5000) []
     (map geometry (rows (multipolygons_to_centroids point_sets demo_far))) = Inr []"
  by (simp add: find_nearest_river_def meters_to_degrees_def cos_radians_0 demo_rivers_def
      demo_far_def point_sets_def river_at_def sqdist_def power2_eq_square
      multipolygons_to_centroids_def centroid_if_multipolygon_def)

lemma demo_far_same_crs: "ensure_same_crs point_sets demo_rivers demo_far = Inr demo_far"
  by (simp add: ensure_same_crs_def demo_rivers_def demo_far_def)

text \<open>
  Claim C7. When both layers load, the reference systems are reconciled and the loop
  collects no river, \<open>create_new_layer\<close> returns without writing and without raising, so
  the task's future holds no exception: the batch loop counts it, lists no file for it
  and prints no error for it, whatever the verbosity.
\<close>

theorem no_match_no_output:
  assumes rr: "read_file fs river_path = Inr river_gdf"
    and rp: "read_file fs point_path = Inr point_gdf"
    and ok: "ensure_same_crs lib river_gdf point_gdf = Inr point_gdf'"
    and none: "select_rivers lib river_gdf radius []
                 (map geometry (rows (multipolygons_to_centroids lib point_gdf'))) = Inr []"
  shows "create_new_layer fs lib river_path point_path new_layer_name save_path radius = Inr None
       \<and> process_layers fs lib river_path point_path save_path radius = Inr None
       \<and> outputs [process_layers fs lib river_path point_path save_path radius] = []
       \<and> raised [process_layers fs lib river_path point_path save_path radius] = []
       \<and> collect v [process_layers fs lib river_path point_path save_path radius] (out, n)
           = (out, Suc n)"
proof -
  have c: "create_new_layer fs lib river_path point_path name save_path radius = Inr None" for name
    using rr rp ok none by (simp add: create_new_layer_def)
  then have p: "process_layers fs lib river_path point_path save_path radius = Inr None"
    by (simp add: process_layers_def Let_def)
  from c p show ?thesis by simp
qed

theorem no_match_no_output_witness:
  "read_file (demo_fs demo_far) ''rivers/Danube.GEOJSON'' = Inr demo_rivers
   \<and> read_file (demo_fs demo_far) ''in/towns.geojson'' = Inr demo_far
   \<and> ensure_same_crs point_sets demo_rivers demo_far = Inr demo_far
   \<and> select_rivers point_sets demo_rivers (PyFloat 5000) []
        (map geometry (rows (multipolygons_to_centroids point_sets demo_far))) = Inr []
   \<and> process_layers (demo_fs demo_far) point_sets ''rivers/Danube.GEOJSON'' ''in/towns.geojson''
        ''out'' (PyFloat 5000) = Inr None
   \<and> collect True [process_layers (demo_fs demo_far) point_sets ''rivers/Danube.GEOJSON''
        ''in/towns.geojson'' ''out'' (PyFloat 5000)] ([], 0) = ([], Suc 0)"
proof -
  have rr: "read_file (demo_fs demo_far) ''rivers/Danube.GEOJSON'' = Inr demo_rivers"
    and rp: "read_file (demo_fs demo_far) ''in/towns.geojson'' = Inr demo_far"
    by (simp_all add: demo_fs_simps)
  from no_match_no_output [OF rr rp demo_far_same_crs demo_far_selected, of "''x''" "''out''" True "[]" 0]
    rr rp demo_far_same_crs demo_far_selected
  show ?thesis by simp
qed

text \<open>
  Claim C8. When both layers load, the reference systems are reconciled and the loop,
  run with a numeric radius, collects at least one river, the frame handed to the writer
  holds exactly the collected rivers: the Matcher's answers for the points of the layer
  in their order, one row per matched point, so a river matched by two points appears
  twice. The frame carries the rivers' reference system, and the file is named after
  the base names of the point file and the river file, joined by an underscore, in the
  save directory. The task's result is that file, or the exception of the writer.
\<close>

theorem matches_written:
  assumes rr: "read_file fs river_path = Inr river_gdf"
    and rp: "read_file fs point_path = Inr point_gdf"
    and ok: "ensure_same_crs lib river_gdf point_gdf = Inr point_gdf'"
    and sel: "selected = List.map_filter (matched lib river_gdf m)
                (concat (map (matcher_inputs lib) (map geometry (rows point_gdf'))))"
    and ne: "selected \<noteq> []"
    and name: "name = fst (splitext (basename point_path)) @ ''_''
                        @ fst (splitext (basename river_path))"
    and outf: "output_file = path_join save_path (name @ ''.geojson'')"
  shows "select_rivers lib river_gdf (PyFloat m) []
           (map geometry (rows (multipolygons_to_centroids lib point_gdf'))) = Inr selected
       \<and> process_layers fs lib river_path point_path save_path (PyFloat m)
           = (case to_file fs output_file \<lparr>rows = selected, crs = crs river_gdf\<rparr> of
                Some e \<Rightarrow> Inl e
              | None \<Rightarrow> Inr (Some (output_file, \<lparr>rows = selected, crs = crs river_gdf\<rparr>)))"
proof -
  have s: "select_rivers lib river_gdf (PyFloat m) []
             (map geometry (rows (multipolygons_to_centroids lib point_gdf'))) = Inr selected"
    unfolding geometry_multipolygons_to_centroids select_rivers_match_points
      match_points_float sel by simp
  have "process_layers fs lib river_path point_path save_path (PyFloat m)
          = create_new_layer fs lib river_path point_path name save_path (PyFloat m)"
    by (simp add: process_layers_def Let_def name)
  also have "\<dots> = (case to_file fs output_file \<lparr>rows = selected, crs = crs river_gdf\<rparr> of
                Some e \<Rightarrow> Inl e
              | None \<Rightarrow> Inr (Some (output_file, \<lparr>rows = selected, crs = crs river_gdf\<rparr>)))"
    using rr rp ok s ne
    by (simp add: create_new_layer_def save_layer_as_geojson_def Let_def outf split: option.splits)
  finally show ?thesis using s by simp
qed

lemma demo_matched:
  "List.map_filter (matched point_sets demo_rivers 5000)
     (concat (map (matcher_inputs point_sets)
        (map geometry (rows demo_towns))))
   = [river_at ''B'' (1 / 100, 0), river_at ''A'' (2 / 100, 0)]"
  by (simp add: matched_def find_nearest_river_def meters_to_degrees_def
      cos_radians_0 demo_rivers_def demo_towns_def point_sets_def river_at_def sqdist_def
      idxmin_def loc_def power2_eq_square mean_def)

theorem matches_written_witness:
  "read_file (demo_fs demo_points) ''rivers/Danube.GEOJSON'' = Inr demo_rivers
   \<and> read_file (demo_fs demo_points) ''in/towns.geojson'' = Inr demo_points
   \<and> ensure_same_crs point_sets demo_rivers demo_points = Inr demo_towns
   \<and> [river_at ''B'' (1 / 100, 0), river_at ''A'' (2 / 100, 0)]
       = List.map_filter (matched point_sets demo_rivers 5000)
           (concat (map (matcher_inputs point_sets)
              (map geometry (rows demo_towns))))
   \<and> [river_at ''B'' (1 / 100, 0), river_at ''A'' (2 / 100, 0)] \<noteq> []
   \<and> ''towns_Danube'' = fst (splitext (basename ''in/towns.geojson'')) @ ''_''
                          @ fst (splitext (basename ''rivers/Danube.GEOJSON''))
   \<and> ''out/towns_Danube.geojson'' = path_join ''out'' (''towns_Danube'' @ ''.geojson'')
   \<and> process_layers (demo_fs demo_points) point_sets ''rivers/Danube.GEOJSON''
        ''in/towns.geojson'' ''out'' (PyFloat 5000)
       = Inr (Some (''out/towns_Danube.geojson'',
                    \<lparr>rows = [river_at ''B'' (1 / 100, 0), river_at ''A'' (2 / 100, 0)],
                     crs = ''EPSG:4326''\<rparr>))"
proof -
  have rr: "read_file (demo_fs demo_points) ''rivers/Danube.GEOJSON'' = Inr demo_rivers"
    and rp: "read_file (demo_fs demo_points) ''in/towns.geojson'' = Inr demo_points"
    by (simp_all add: demo_fs_simps)
  have ne: "[river_at ''B'' (1 / 100, 0), river_at ''A'' (2 / 100, 0)] \<noteq> []"
    by simp
  have name: "''towns_Danube'' = fst (splitext (basename ''in/towns.geojson'')) @ ''_''
                          @ fst (splitext (basename ''rivers/Danube.GEOJSON''))"
    by (simp add: demo_names)
  have outf: "''out/towns_Danube.geojson'' = path_join ''out'' (''towns_Danube'' @ ''.geojson'')"
    by (simp add: path_join_def)
  have c: "crs demo_rivers = ''EPSG:4326''"
    by (simp add: demo_rivers_def)
  from matches_written [OF rr rp demo_reprojected demo_matched [symmetric] ne name outf]
  have "process_layers (demo_fs demo_points) point_sets ''rivers/Danube.GEOJSON''
        ''in/towns.geojson'' ''out'' (PyFloat 5000)
       = Inr (Some (''out/towns_Danube.geojson'',
                    \<lparr>rows = [river_at ''B'' (1 / 100, 0), river_at ''A'' (2 / 100, 0)],
                     crs = ''EPSG:4326''\<rparr>))"
    by (simp add: demo_fs_simps c)
  with rr rp demo_reprojected demo_matched ne name outf show ?thesis by simp
qed



section \<open>Failures in a batch\<close>


lemma mixed_fs_simps:
  "makedirs mixed_fs p = None"
  "to_file mixed_fs p gdf = None"
  "read_file mixed_fs ''in/ford.geojson'' = Inr demo_ford"
  "read_file mixed_fs ''in/broken.geojson'' = Inl (ExternalError ''cannot open'')"
  "read_file mixed_fs ''rivers/danube.geojson'' = Inr demo_rivers"
  by (simp_all add: mixed_fs_def)


lemma mixed_names:
  "fst (splitext (basename ''in/ford.geojson'')) = ''ford''"
  "fst (splitext (basename ''in/broken.geojson'')) = ''broken''"
  "fst (splitext (basename ''rivers/danube.geojson'')) = ''danube''"
  by (simp_all add: splitext_def basename_def rfind_def)

lemma mixed_tasks:
  "process_layers mixed_fs point_sets ''rivers/danube.geojson'' ''in/broken.geojson'' ''out''
     (PyStr ''5000'') = Inl (ExternalError ''cannot open'')"
  "process_layers mixed_fs point_sets ''rivers/danube.geojson'' ''in/ford.geojson'' ''out''
     (PyStr ''5000'') = Inl TypeError"
  "intersect_process_layers mixed_fs point_sets ''rivers/danube.geojson'' ''in/broken.geojson''
     ''out'' = Inl (ExternalError ''cannot open'')"
  "intersect_process_layers mixed_fs point_sets ''rivers/danube.geojson'' ''in/ford.geojson''
     ''out'' = Inr (Some (''out/ford_danube.geojson'',
                          \<lparr>rows = [river_at ''B'' (1 / 100, 0)], crs = ''EPSG:4326''\<rparr>))"
  by (simp_all add: process_layers_def intersect_process_layers_def create_new_layer_def
      intersect_create_new_layer_def mixed_fs_simps mixed_names ensure_same_crs_def
      demo_rivers_def demo_ford_def multipolygons_to_centroids_def centroid_if_multipolygon_def
      find_nearest_river_str point_sets_def river_at_def save_layer_as_geojson_def path_join_def)






lemma in_order_of_submission: "in_order_of_completion (\<lambda>i. 0) tasks = tasks"
  by (simp add: in_order_of_completion_def sort_key_const map_nth)





lemma select_rivers_str_result:
  "select_rivers lib river_gdf (PyStr s) acc geoms = Inr selected \<Longrightarrow> selected = acc"
proof (induction geoms arbitrary: acc)
  case Nil
  then show ?case by simp
next
  case (Cons g geoms)
  then show ?case by (cases g) (simp_all add: find_nearest_river_str)
qed

lemma process_layers_str_writes_nothing:
  "files_after fs (process_layers fs lib river file save (PyStr s)) = fs"
proof -
  have "create_new_layer fs lib river file name save (PyStr s) \<noteq> Inr (Some w)" for name w
    by (auto simp: create_new_layer_def dest: select_rivers_str_result
        split: sum.splits if_splits)
  then show ?thesis
    by (auto simp: files_after_def process_layers_def Let_def split: sum.splits option.splits)
qed

lemma run_pool_str:
  "run_pool (\<lambda>fs' (river, file). process_layers fs' lib river file save (PyStr s)) fs ts
   = (map (\<lambda>(river, file). process_layers fs lib river file save (PyStr s)) ts, fs)"
  by (induction ts) (simp_all add: Let_def split_beta process_layers_str_writes_nothing)

lemma main_scheduled_in_order_of_submission:
  "main_scheduled fs lib a (\<lambda>i. 0) = main fs lib a"
  by (simp add: main_scheduled_def main_def in_order_of_submission run_pool_str Let_def
      split: option.splits)





lemma mixed_after_ford:
  "intersect_process_layers
     (write_file mixed_fs (''out/ford_danube.geojson'',
        \<lparr>rows = [river_at ''B'' (1 / 100, 0)], crs = ''EPSG:4326''\<rparr>))
     point_sets ''rivers/danube.geojson'' ''in/broken.geojson'' ''out''
   = Inl (ExternalError ''cannot open'')"
  by (simp add: intersect_process_layers_def intersect_create_new_layer_def write_file_def
      mixed_fs_simps mixed_names)

lemma mixed_pool:
  "run_pool (\<lambda>fs' (river, file). intersect_process_layers fs' point_sets river file ''out'') mixed_fs
     [(''rivers/danube.geojson'', ''in/ford.geojson''),
      (''rivers/danube.geojson'', ''in/broken.geojson'')]
   = ([Inr (Some (''out/ford_danube.geojson'',
                  \<lparr>rows = [river_at ''B'' (1 / 100, 0)], crs = ''EPSG:4326''\<rparr>)),
       Inl (ExternalError ''cannot open'')],
      write_file mixed_fs (''out/ford_danube.geojson'',
        \<lparr>rows = [river_at ''B'' (1 / 100, 0)], crs = ''EPSG:4326''\<rparr>))"
  by (simp add: Let_def mixed_tasks files_after_def mixed_after_ford)










section \<open>The radius and the distance of the match\<close>

lemma sqrt_9_4: "sqrt (9 / 4) = 3 / 2"
  by (rule real_sqrt_unique) (simp_all add: power2_eq_square)

text \<open>
  Claim C10. A point at latitude 60 and a radius of 111000 metres: the radius is one
  degree of latitude and two degrees of longitude, and the buffer takes the larger. A
  river one and a half degrees due north of the point lies in that buffer and is
  returned, although one and a half degrees of latitude are 166500 metres by the
  function's own conversion, more than the radius. Nothing compares the distance of
  the returned river with the radius.
\<close>

theorem nearest_river_beyond_radius:
  "meters_to_degrees (PyFloat 111000) (snd (0, 60)) = Inr (1, 2)
   \<and> find_nearest_river point_sets (0, 60)
         \<lparr>rows = [river_at ''north'' (0, 123 / 2)], crs = ''EPSG:4326''\<rparr> (PyFloat 111000)
       = Inr (Some (river_at ''north'' (0, 123 / 2)))
   \<and> nearest_distance point_sets (0, 60) (geometry (river_at ''north'' (0, 123 / 2))) = 3 / 2
   \<and> meters_to_degrees (PyFloat 166500) (snd (0, 60)) = Inr (3 / 2, 3)
   \<and> (111000 :: real) < 166500"
proof -
  have conv: "meters_to_degrees (PyFloat 111000) (snd (0, 60)) = Inr (1, 2)"
    by (simp add: meters_to_degrees_def cos_radians_60)
  have conv': "meters_to_degrees (PyFloat 166500) (snd (0, 60)) = Inr (3 / 2, 3)"
    by (simp add: meters_to_degrees_def cos_radians_60)
  have d: "nearest_distance point_sets (0, 60) (geometry (river_at ''north'' (0, 123 / 2))) = 3 / 2"
    by (simp add: point_sets_def river_at_def sqdist_def power2_eq_square sqrt_9_4)
  have f: "find_nearest_river point_sets (0, 60)
         \<lparr>rows = [river_at ''north'' (0, 123 / 2)], crs = ''EPSG:4326''\<rparr> (PyFloat 111000)
       = Inr (Some (river_at ''north'' (0, 123 / 2)))"
    unfolding find_nearest_river_eq [OF conv]
    by (simp add: point_sets_def river_at_def sqdist_def power2_eq_square)
  from conv conv' d f show ?thesis by simp
qed


end
